theory Spec2Isabelle
  imports Main
begin

section \<open>Wordwave: the word guessing game\<close>

text \<open>
  The repository holds two variants of \<^verbatim>\<open>guessing.js\<close>. The development embeds the
  richer one (the file whose header reads ``File: guessing.js'', with \<^verbatim>\<open>MAX_GUESSES\<close>,
  \<^verbatim>\<open>gameOver\<close>, the two-pass \<^verbatim>\<open>processGuess\<close> and the tiered reward), function by
  function and under the names of the source. The simpler variant has no limit of
  guesses, no game-over flag, no tiles and a flat reward of 10 points; its word list
  filter and its hint purchase are those of the richer one, the game-over check apart.

  Conventions of the embedding:
  \<^item> a JavaScript string is a HOL \<open>string\<close>, one \<open>char\<close> for each UTF-16 code unit:
    the embedding covers text of the code units below 256 (ASCII and Latin-1), and
    \<open>toUpperCase\<close> and \<open>trim\<close> below are JavaScript's on such text;
  \<^item> \<^verbatim>\<open>s[i]\<close> is \<open>charAt s i\<close>, a \<open>char option\<close>: \<open>None\<close> is JavaScript's
    \<^verbatim>\<open>undefined\<close>, the value of an index past the end;
  \<^item> \<^verbatim>\<open>Math.floor(Math.random() * n)\<close> is \<open>floorRandom r n\<close> for a number \<open>r\<close> handed
    to the function: any index below \<open>n\<close>, and nothing else;
  \<^item> an \<^verbatim>\<open>alert\<close> is returned as a value of type \<open>alert\<close>, the colours painted on the
    tiles of a row as a list; the text of the tiles, the keyboard, the input field and
    \<^verbatim>\<open>localStorage\<close> are display and persistence and are left out;
  \<^item> the board is the one \<^verbatim>\<open>generateGameBoard\<close> builds: \<open>MAX_GUESSES\<close> rows of
    \<open>WORD_LENGTH\<close> tiles, so the row \<^verbatim>\<open>.row:nth-child(guessCount + 1)\<close> exists exactly
    when \<open>guessCount < MAX_GUESSES\<close>.
\<close>

subsection \<open>Game state\<close>

definition MAX_GUESSES :: nat where
  "MAX_GUESSES = 6"

definition WORD_LENGTH :: nat where
  "WORD_LENGTH = 5"

type_synonym letter = "char option"

record gameState =
  wordToGuess :: string
  guessCount :: nat
  greenLetters :: "letter set"
  yellowLetters :: "letter set"
  grayLetters :: "letter set"
  points :: int
  revealedHintIndices :: "nat list"
  validWords :: "string list"
  streak :: int
  gameOver :: bool

text \<open>The object literal that initialises \<^verbatim>\<open>gameState\<close>.\<close>

definition initialState :: gameState where
  "initialState =
     \<lparr> wordToGuess = [], guessCount = 0, greenLetters = {}, yellowLetters = {},
       grayLetters = {}, points = 0, revealedHintIndices = [], validWords = [],
       streak = 0, gameOver = False \<rparr>"

text \<open>
  The alerts of the source, by their text:
  \<^item> \<open>GameIsOver\<close>: ``Game is over. Start a new game.''
  \<^item> \<open>MaxGuessesReached\<close>: ``You've reached the maximum number of guesses.''
  \<^item> \<open>EnterWordOfLength\<close>: ``Enter a 5 letter word.''
  \<^item> \<open>IllegalCharacters\<close>: ``Word contains illegal characters''
  \<^item> \<open>NotInDictionary\<close>: ``Word not in dictionary.''
  \<^item> \<open>Congratulations n p\<close>: ``Congratulations! You guessed the word in n tries and
    earned p points!''
  \<^item> \<open>GameOverWordWas w\<close>: ``Game over! The word was w.''
  \<^item> \<open>NotEnoughPoints\<close>: ``You don't have enough points to buy a hint. You need 5
    points.''
  \<^item> \<open>AllLettersRevealed\<close>: ``All letters have been revealed as hints!''
  \<^item> \<open>ErrorLoadingWordList\<close>: ``Error loading word list. Using default word.''
\<close>

datatype alert =
    GameIsOver
  | MaxGuessesReached
  | EnterWordOfLength
  | IllegalCharacters
  | NotInDictionary
  | Congratulations nat int
  | GameOverWordWas string
  | NotEnoughPoints
  | AllLettersRevealed
  | ErrorLoadingWordList

text \<open>The background colours \<^verbatim>\<open>processGuess\<close> paints: green, gold and gray.\<close>

datatype colour = Green | Yellow | Gray

subsection \<open>Strings\<close>

definition charAt :: "string \<Rightarrow> nat \<Rightarrow> letter" where
  "charAt s i = (if i < length s then Some (s ! i) else None)"

definition lowerCase :: string where
  "lowerCase = ''abcdefghijklmnopqrstuvwxyz''"

definition upperCase :: string where
  "upperCase = ''ABCDEFGHIJKLMNOPQRSTUVWXYZ''"

text \<open>
  The small letters of Latin-1 with a capital in Latin-1, \<open>0xE0\<close> to \<open>0xFE\<close> without
  the division sign \<open>0xF7\<close>, and their capitals, 32 below.
\<close>

definition lowerLatin :: string where
  "lowerLatin =
     [CHR 0xE0, CHR 0xE1, CHR 0xE2, CHR 0xE3, CHR 0xE4, CHR 0xE5, CHR 0xE6, CHR 0xE7,
      CHR 0xE8, CHR 0xE9, CHR 0xEA, CHR 0xEB, CHR 0xEC, CHR 0xED, CHR 0xEE, CHR 0xEF,
      CHR 0xF0, CHR 0xF1, CHR 0xF2, CHR 0xF3, CHR 0xF4, CHR 0xF5, CHR 0xF6, CHR 0xF8,
      CHR 0xF9, CHR 0xFA, CHR 0xFB, CHR 0xFC, CHR 0xFD, CHR 0xFE]"

definition upperLatin :: string where
  "upperLatin =
     [CHR 0xC0, CHR 0xC1, CHR 0xC2, CHR 0xC3, CHR 0xC4, CHR 0xC5, CHR 0xC6, CHR 0xC7,
      CHR 0xC8, CHR 0xC9, CHR 0xCA, CHR 0xCB, CHR 0xCC, CHR 0xCD, CHR 0xCE, CHR 0xCF,
      CHR 0xD0, CHR 0xD1, CHR 0xD2, CHR 0xD3, CHR 0xD4, CHR 0xD5, CHR 0xD6, CHR 0xD8,
      CHR 0xD9, CHR 0xDA, CHR 0xDB, CHR 0xDC, CHR 0xDD, CHR 0xDE]"

definition toUpperChar :: "char \<Rightarrow> char" where
  "toUpperChar c =
     (case map_of (zip (lowerCase @ lowerLatin) (upperCase @ upperLatin)) c of
        Some u \<Rightarrow> u
      | None \<Rightarrow> c)"

text \<open>
  \<^verbatim>\<open>toUpperCase\<close> works letter by letter, and the sharp s \<open>0xDF\<close> becomes the two
  letters ``SS'': the result can be longer than the text. The micro sign \<open>0xB5\<close> and
  \<open>0xFF\<close>, whose capitals lie above 255, are left as they are; like their capitals they
  are one code unit that is no letter from A to Z.
\<close>

definition toUpperCase :: "string \<Rightarrow> string" where
  "toUpperCase s = concat (map (\<lambda>c. if c = CHR 0xDF then ''SS'' else [toUpperChar c]) s)"

text \<open>The white space and line ends \<^verbatim>\<open>trim\<close> removes, below 256: tab, line feed,
  vertical tab, form feed, carriage return, space and the no-break space \<open>0xA0\<close>.\<close>

definition whiteSpace :: "char \<Rightarrow> bool" where
  "whiteSpace c =
     (c \<in> set [CHR 0x09, CHR 0x0A, CHR 0x0B, CHR 0x0C, CHR 0x0D, CHR 0x20, CHR 0xA0])"

definition trim :: "string \<Rightarrow> string" where
  "trim s = rev (dropWhile whiteSpace (rev (dropWhile whiteSpace s)))"

text \<open>\<^verbatim>\<open>data.split('\n')\<close>: the pieces between the line feeds, the empty ones too.\<close>

fun split :: "char \<Rightarrow> string \<Rightarrow> string list" where
  "split sep [] = [[]]"
| "split sep (c # cs) =
     (if c = sep then [] # split sep cs
      else (case split sep cs of w # ws \<Rightarrow> (c # w) # ws | [] \<Rightarrow> [[c]]))"

text \<open>\<^verbatim>\<open>guess.match(/^[A-Z]+$/)\<close>: one character or more, each of them in A to Z.\<close>

definition matchAZ :: "string \<Rightarrow> bool" where
  "matchAZ s = (s \<noteq> [] \<and> list_all (\<lambda>c. c \<in> set upperCase) s)"

definition floorRandom :: "nat \<Rightarrow> nat \<Rightarrow> nat" where
  "floorRandom r n = r mod n"

subsection \<open>Points and streak\<close>

definition updatePoints :: "gameState \<Rightarrow> int \<Rightarrow> gameState" where
  "updatePoints s score = s\<lparr>points := points s + score\<rparr>"

definition updateStreak :: "gameState \<Rightarrow> gameState" where
  "updateStreak s = s\<lparr>streak := streak s + 1\<rparr>"

definition resetStreak :: "gameState \<Rightarrow> gameState" where
  "resetStreak s = s\<lparr>streak := 0\<rparr>"

subsection \<open>Loading the word list\<close>

text \<open>
  \<open>fetchWordList s response r\<close>: \<open>response\<close> is the text of \<^verbatim>\<open>wordList.txt\<close>, or \<open>None\<close>
  when the request fails or its answer is not ok. Both failures of the promise chain end
  in the \<^verbatim>\<open>catch\<close>, which alerts and sets the default word. The filter keeps a word for
  its length alone.
\<close>

definition wordListOf :: "string \<Rightarrow> string list" where
  "wordListOf data =
     filter (\<lambda>word. length word = WORD_LENGTH)
       (map (\<lambda>word. toUpperCase (trim word)) (split CHR 0x0A data))"

definition fetchWordList :: "gameState \<Rightarrow> string option \<Rightarrow> nat \<Rightarrow> alert option \<times> gameState" where
  "fetchWordList s response r =
     (case response of
        None \<Rightarrow> (Some ErrorLoadingWordList, s\<lparr>wordToGuess := ''APPLE''\<rparr>)
      | Some data \<Rightarrow>
          (let wordList = wordListOf data in
           if length wordList = 0
           then (Some ErrorLoadingWordList, s\<lparr>wordToGuess := ''APPLE''\<rparr>)
           else (None, s\<lparr>validWords := wordList,
                          wordToGuess := wordList ! floorRandom r (length wordList)\<rparr>)))"

subsection \<open>Evaluating a guess\<close>

text \<open>
  The first loop of \<^verbatim>\<open>processGuess\<close>, at index \<open>i\<close>: an exact match paints the tile
  green, adds the letter to \<^verbatim>\<open>greenLetters\<close> and counts it. The tiles are the colours
  painted so far, \<open>None\<close> for a tile this call has not painted.
\<close>

definition markGreen ::
  "string \<Rightarrow> string \<Rightarrow> nat \<Rightarrow> colour option list \<times> letter set \<times> nat
     \<Rightarrow> colour option list \<times> letter set \<times> nat" where
  "markGreen target guess i = (\<lambda>(tiles, green, correctCount).
     (let letter = charAt guess i in
      if charAt target i = letter
      then (tiles[i := Some Green], insert letter green, correctCount + 1)
      else (tiles, green, correctCount)))"

text \<open>\<^verbatim>\<open>letterCounts\<close>, an object from letters to numbers:
  \<^verbatim>\<open>letterCounts[letter] = (letterCounts[letter] || 0) + 1\<close> for every letter of the
  target.\<close>

definition countLetter :: "char \<Rightarrow> (char \<rightharpoonup> int) \<Rightarrow> (char \<rightharpoonup> int)" where
  "countLetter letter letterCounts =
     letterCounts(letter \<mapsto> (case letterCounts letter of None \<Rightarrow> 0 | Some n \<Rightarrow> n) + 1)"

definition countLetters :: "string \<Rightarrow> (char \<rightharpoonup> int)" where
  "countLetters target = fold countLetter target Map.empty"

text \<open>
  \<^verbatim>\<open>letterCounts[letter]--\<close>. Where the entry is missing JavaScript stores \<^verbatim>\<open>NaN\<close>, and
  for the letter \<^verbatim>\<open>undefined\<close> it does so under the key ``undefined'': such an entry is
  never \<^verbatim>\<open>> 0\<close>, as a missing one, so the map is left as it is.
\<close>

definition decrement :: "letter \<Rightarrow> (char \<rightharpoonup> int) \<Rightarrow> (char \<rightharpoonup> int)" where
  "decrement letter letterCounts =
     (case letter of
        None \<Rightarrow> letterCounts
      | Some c \<Rightarrow> (case letterCounts c of
                    None \<Rightarrow> letterCounts
                  | Some n \<Rightarrow> letterCounts(c \<mapsto> n - 1)))"

text \<open>\<^verbatim>\<open>letterCounts[letter] > 0\<close>\<close>

definition positive :: "(char \<rightharpoonup> int) \<Rightarrow> letter \<Rightarrow> bool" where
  "positive letterCounts letter =
     (case letter of
        None \<Rightarrow> False
      | Some c \<Rightarrow> (case letterCounts c of None \<Rightarrow> False | Some n \<Rightarrow> 0 < n))"

text \<open>The loop that deducts the green matches, at index \<open>i\<close>.\<close>

definition deductGreen :: "string \<Rightarrow> string \<Rightarrow> nat \<Rightarrow> (char \<rightharpoonup> int) \<Rightarrow> (char \<rightharpoonup> int)" where
  "deductGreen target guess i letterCounts =
     (if charAt target i = charAt guess i then decrement (charAt guess i) letterCounts
      else letterCounts)"

text \<open>The last loop, at index \<open>i\<close>: green tiles are skipped, the others become yellow
  while the count of their letter is positive, gray otherwise.\<close>

definition markYellowGray ::
  "string \<Rightarrow> string \<Rightarrow> nat
     \<Rightarrow> colour option list \<times> letter set \<times> letter set \<times> (char \<rightharpoonup> int)
     \<Rightarrow> colour option list \<times> letter set \<times> letter set \<times> (char \<rightharpoonup> int)" where
  "markYellowGray target guess i = (\<lambda>(tiles, yellow, gray, letterCounts).
     (let letter = charAt guess i in
      if charAt target i = letter then (tiles, yellow, gray, letterCounts)
      else if positive letterCounts letter
      then (tiles[i := Some Yellow], insert letter yellow, gray, decrement letter letterCounts)
      else (tiles[i := Some Gray], yellow, insert letter gray, letterCounts)))"

text \<open>
  \<open>processGuess s guess\<close> returns the flag \<^verbatim>\<open>correct\<close>, the colours painted on the row
  of this guess, and the state. Without a row it returns at once, nothing painted.
\<close>

definition processGuess :: "gameState \<Rightarrow> string \<Rightarrow> bool \<times> colour option list \<times> gameState" where
  "processGuess s guess =
     (if \<not> guessCount s < MAX_GUESSES then (False, [], s)
      else
        (let target = wordToGuess s;
             (tiles1, green, correctCount) =
                fold (markGreen target guess) [0..<WORD_LENGTH]
                  (replicate WORD_LENGTH None, greenLetters s, 0);
             letterCounts = fold (deductGreen target guess) [0..<WORD_LENGTH] (countLetters target);
             (tiles2, yellow, gray, letterCounts') =
                fold (markYellowGray target guess) [0..<WORD_LENGTH]
                  (tiles1, yellowLetters s, grayLetters s, letterCounts)
         in (correctCount = WORD_LENGTH, tiles2,
             s\<lparr>greenLetters := green, yellowLetters := yellow, grayLetters := gray\<rparr>)))"

subsection \<open>Winning, losing, guessing\<close>

definition handleWin :: "gameState \<Rightarrow> alert \<times> gameState" where
  "handleWin s =
     (let s1 = s\<lparr>gameOver := True\<rparr>;
          pointsAwarded = (if guessCount s1 \<le> 2 then 6 else 3);
          s2 = updatePoints s1 pointsAwarded;
          s3 = updateStreak s2
      in (Congratulations (guessCount s3) pointsAwarded, s3))"

definition handleLoss :: "gameState \<Rightarrow> alert \<times> gameState" where
  "handleLoss s =
     (let s1 = s\<lparr>gameOver := True\<rparr>;
          s2 = resetStreak s1
      in (GameOverWordWas (wordToGuess s2), s2))"

text \<open>
  \<open>makeGuess s v\<close>, where \<open>v\<close> is the value of the input field, returns the alert shown
  (if any), the colours painted, and the state.
\<close>

definition makeGuess :: "gameState \<Rightarrow> string \<Rightarrow> alert option \<times> colour option list \<times> gameState" where
  "makeGuess s v =
     (if gameOver s then (Some GameIsOver, [], s)
      else if guessCount s \<ge> MAX_GUESSES then (Some MaxGuessesReached, [], s)
      else
        (let guess = toUpperCase v in
         if length guess \<noteq> WORD_LENGTH then (Some EnterWordOfLength, [], s)
         else if \<not> matchAZ guess then (Some IllegalCharacters, [], s)
         else if guess \<notin> set (validWords s) then (Some NotInDictionary, [], s)
         else
           (let (correct, tiles, s1) = processGuess s guess;
                s2 = s1\<lparr>guessCount := guessCount s1 + 1\<rparr>
            in if correct then (let (a, s3) = handleWin s2 in (Some a, tiles, s3))
               else if guessCount s2 \<ge> MAX_GUESSES
               then (let (a, s3) = handleLoss s2 in (Some a, tiles, s3))
               else (None, tiles, s2))))"

subsection \<open>The keyboard\<close>

datatype keyClass = Key | GrayKey | YellowKey | GreenKey

definition createKey :: "gameState \<Rightarrow> char \<Rightarrow> keyClass" where
  "createKey s letter =
     (if Some letter \<in> greenLetters s then GreenKey
      else if Some letter \<in> yellowLetters s then YellowKey
      else if Some letter \<in> grayLetters s then GrayKey
      else Key)"

subsection \<open>Hints\<close>

text \<open>
  \<open>buyHint s r\<close> returns what the player sees and the state. The hint is painted on the
  row of the next guess; without such a row \<^verbatim>\<open>hintRow\<close> is \<^verbatim>\<open>null\<close> and the call
  throws, after the index was pushed and the points deducted.
\<close>

datatype hintResult = Refused alert | Revealed nat letter | TypeError

definition buyHint :: "gameState \<Rightarrow> nat \<Rightarrow> hintResult \<times> gameState" where
  "buyHint s r =
     (if gameOver s then (Refused GameIsOver, s)
      else if points s < 5 then (Refused NotEnoughPoints, s)
      else
        (let availableIndices =
               filter (\<lambda>i. i \<notin> set (revealedHintIndices s)) [0..<WORD_LENGTH] in
         if length availableIndices = 0 then (Refused AllLettersRevealed, s)
         else
           (let randomIndex = availableIndices ! floorRandom r (length availableIndices);
                s1 = s\<lparr>revealedHintIndices := revealedHintIndices s @ [randomIndex]\<rparr>;
                s2 = updatePoints s1 (- 5);
                hintLetter = charAt (wordToGuess s2) randomIndex
            in if guessCount s2 < MAX_GUESSES then (Revealed randomIndex hintLetter, s2)
               else (TypeError, s2))))"

subsection \<open>A new game\<close>

definition newGame :: "gameState \<Rightarrow> nat \<Rightarrow> gameState" where
  "newGame s r =
     (let s1 = s\<lparr>guessCount := 0, greenLetters := {}, yellowLetters := {}, grayLetters := {},
                 revealedHintIndices := [], gameOver := False\<rparr>
      in if length (validWords s1) > 0
         then s1\<lparr>wordToGuess := validWords s1 ! floorRandom r (length (validWords s1))\<rparr>
         else s1)"

subsection \<open>Saved data\<close>

text \<open>\<open>loadSavedData s savedPoints savedStreak\<close>: the two items of \<^verbatim>\<open>localStorage\<close>,
  \<open>None\<close> for \<^verbatim>\<open>null\<close>.\<close>

definition loadSavedData :: "gameState \<Rightarrow> int option \<Rightarrow> int option \<Rightarrow> gameState" where
  "loadSavedData s savedPoints savedStreak =
     (let s1 = (case savedPoints of None \<Rightarrow> s | Some p \<Rightarrow> s\<lparr>points := p\<rparr>)
      in (case savedStreak of None \<Rightarrow> s1 | Some k \<Rightarrow> s1\<lparr>streak := k\<rparr>))"

section \<open>Notions of the specification\<close>

text \<open>
  What the player can do within one game: submit a guess or buy a hint. \<open>play s as\<close> is
  the state after the actions \<open>as\<close>, one after the other.
\<close>

datatype action = Guess string | Hint nat

definition step :: "gameState \<Rightarrow> action \<Rightarrow> gameState" where
  "step s a = (case a of Guess v \<Rightarrow> snd (snd (makeGuess s v)) | Hint r \<Rightarrow> snd (buyHint s r))"

definition play :: "gameState \<Rightarrow> action list \<Rightarrow> gameState" where
  "play s as = foldl step s as"

text \<open>The states of the running program: the page loads the saved data, and from then
  on the word list arrives, the player guesses, buys hints and starts new games.\<close>

inductive reachable :: "gameState \<Rightarrow> bool" where
  loaded: "reachable (loadSavedData initialState savedPoints savedStreak)"
| fetched: "reachable s \<Longrightarrow> reachable (snd (fetchWordList s response r))"
| guessed: "reachable s \<Longrightarrow> reachable (snd (snd (makeGuess s v)))"
| hinted: "reachable s \<Longrightarrow> reachable (snd (buyHint s r))"
| restarted: "reachable s \<Longrightarrow> reachable (newGame s r)"

code_pred reachable .

text \<open>What every reachable state satisfies: a game that is not over has guesses left,
  the words of the list have \<open>WORD_LENGTH\<close> letters, and so has the target once there is
  a list.\<close>

definition consistent :: "gameState \<Rightarrow> bool" where
  "consistent s =
     ((gameOver s \<or> guessCount s < MAX_GUESSES) \<and>
      list_all (\<lambda>w. length w = WORD_LENGTH) (validWords s) \<and>
      (validWords s = [] \<or> length (wordToGuess s) = WORD_LENGTH))"

text \<open>The number of tiles of colour \<open>c\<close> under the letter \<open>L\<close> of the guess.\<close>

definition tagged :: "colour option list \<Rightarrow> string \<Rightarrow> char \<Rightarrow> colour \<Rightarrow> nat" where
  "tagged tiles guess L c =
     length (filter (\<lambda>i. charAt guess i = Some L \<and> tiles ! i = Some c) [0..<length tiles])"

text \<open>The count \<^verbatim>\<open>letterCounts\<close> holds for a letter, none read as zero.\<close>

definition available :: "(char \<rightharpoonup> int) \<Rightarrow> char \<Rightarrow> int" where
  "available letterCounts c = (case letterCounts c of None \<Rightarrow> 0 | Some n \<Rightarrow> n)"

text \<open>The rank of a key: unknown, absent, present, correct.\<close>

fun rank :: "keyClass \<Rightarrow> nat" where
  "rank Key = 0"
| "rank GrayKey = 1"
| "rank YellowKey = 2"
| "rank GreenKey = 3"

text \<open>A guess that passes the checks of \<open>makeGuess\<close>, and one that is the target.\<close>

definition acceptable :: "gameState \<Rightarrow> string \<Rightarrow> bool" where
  "acceptable s v =
     (length (toUpperCase v) = WORD_LENGTH \<and> matchAZ (toUpperCase v) \<and>
      toUpperCase v \<in> set (validWords s))"


text \<open>The positions the hints of a run of actions reveal, in order.\<close>

fun revealedBy :: "gameState \<Rightarrow> action list \<Rightarrow> nat list" where
  "revealedBy s [] = []"
| "revealedBy s (a # as) =
     (case a of
        Guess v \<Rightarrow> []
      | Hint r \<Rightarrow> (case fst (buyHint s r) of Revealed i l \<Rightarrow> [i] | _ \<Rightarrow> []))
     @ revealedBy (step s a) as"

text \<open>
  A word list of five lines, some of them padded or in lower case, and the state of a
  page that has loaded \<open>p\<close> saved points and this list, the first word drawn as target.
\<close>

definition exampleList :: string where
  "exampleList =
     ''LEVEL'' @ [CHR 0x0A] @ '' apple '' @ [CHR 0x0A] @ ''elbow'' @ [CHR 0x0A] @
     ''Eerie'' @ [CHR 0x0A] @ ''CRANE''"

definition exampleState :: "int \<Rightarrow> gameState" where
  "exampleState p =
     snd (fetchWordList (loadSavedData initialState (Some p) None) (Some exampleList) 0)"


definition masseState :: gameState where
  "masseState =
     snd (fetchWordList (loadSavedData initialState None None)
            (Some (''level'' @ [CHR 0x0A] @ ''masse'')) 0)"

section \<open>Properties of the guess evaluation\<close>

subsection \<open>The three loops\<close>

lemma fold_upt_Suc: "fold f [0..<Suc k] x = f k (fold f [0..<k] x)"
  by simp

lemma length_filter_upt_Suc:
  "length (filter P [0..<Suc k]) = length (filter P [0..<k]) + (if P k then 1 else 0)"
  by simp

lemma markGreen_step:
  "fst (markGreen T G k x) =
     (if charAt T k = charAt G k then (fst x)[k := Some Green] else fst x)"
  "fst (snd (markGreen T G k x)) =
     (if charAt T k = charAt G k then insert (charAt G k) (fst (snd x)) else fst (snd x))"
  "snd (snd (markGreen T G k x)) =
     (if charAt T k = charAt G k then snd (snd x) + 1 else snd (snd x))"
  by (simp_all add: markGreen_def split_beta Let_def)

lemma markGreen_length:
  "length (fst (fold (markGreen T G) [0..<k] x)) = length (fst x)"
  by (induction k) (simp_all add: markGreen_step fold_upt_Suc del: upt_Suc)

lemma markGreen_tiles:
  "i < length (fst x) \<Longrightarrow>
   fst (fold (markGreen T G) [0..<k] x) ! i =
     (if i < k \<and> charAt T i = charAt G i then Some Green else fst x ! i)"
proof (induction k)
  case 0
  then show ?case by simp
next
  case (Suc k)
  then show ?case
    by (auto simp add: markGreen_step fold_upt_Suc markGreen_length
        nth_list_update less_Suc_eq simp del: upt_Suc)
qed

lemma markGreen_letters:
  "fst (snd (fold (markGreen T G) [0..<k] x)) =
     fst (snd x) \<union> charAt G ` {i. i < k \<and> charAt T i = charAt G i}"
proof (induction k)
  case 0
  then show ?case by simp
next
  case (Suc k)
  have "{i. i < Suc k \<and> charAt T i = charAt G i} =
        (if charAt T k = charAt G k then {k} else {}) \<union> {i. i < k \<and> charAt T i = charAt G i}"
    by (auto simp: less_Suc_eq)
  with Suc show ?case
    by (simp add: markGreen_step fold_upt_Suc del: upt_Suc)
qed

lemma markGreen_count:
  "snd (snd (fold (markGreen T G) [0..<k] x)) =
     snd (snd x) + length (filter (\<lambda>i. charAt T i = charAt G i) [0..<k])"
  by (induction k) (simp_all add: markGreen_step fold_upt_Suc length_filter_upt_Suc del: upt_Suc)

lemma countLetter_fold:
  "fold countLetter w m c =
     (if c \<in> set w then Some ((case m c of None \<Rightarrow> 0 | Some n \<Rightarrow> n) + int (count_list w c))
      else m c)"
  by (induction w arbitrary: m) (auto simp: countLetter_def split: option.splits)

lemma countLetters_eq:
  "countLetters T c = (if c \<in> set T then Some (int (count_list T c)) else None)"
  by (simp add: countLetters_def countLetter_fold)

lemma index_count: "length (filter (\<lambda>i. xs ! i = c) [0..<length xs]) = count_list xs c"
proof (induction xs rule: rev_induct)
  case Nil
  then show ?case by simp
next
  case (snoc x xs)
  have "filter (\<lambda>i. (xs @ [x]) ! i = c) [0..<length xs] = filter (\<lambda>i. xs ! i = c) [0..<length xs]"
    by (rule filter_cong) (auto simp: nth_append)
  with snoc show ?case by simp
qed


lemma decrement_apply:
  "decrement letter m c =
     (if letter = Some c then map_option (\<lambda>n. n - 1) (m c) else m c)"
  by (auto simp: decrement_def split: option.splits)

lemma deductGreen_fold:
  "fold (deductGreen T G) [0..<k] (countLetters T) c =
     (if c \<in> set T
      then Some (int (count_list T c) -
             int (length (filter (\<lambda>i. charAt T i = charAt G i \<and> charAt G i = Some c) [0..<k])))
      else None)"
proof (induction k)
  case 0
  then show ?case by (simp add: countLetters_eq)
next
  case (Suc k)
  define m where "m = fold (deductGreen T G) [0..<k] (countLetters T)"
  have step: "fold (deductGreen T G) [0..<Suc k] (countLetters T) = deductGreen T G k m"
    by (simp add: m_def)
  have ih: "m c =
     (if c \<in> set T
      then Some (int (count_list T c) -
             int (length (filter (\<lambda>i. charAt T i = charAt G i \<and> charAt G i = Some c) [0..<k])))
      else None)"
    using Suc by (simp add: m_def)
  show ?case
    unfolding step
    by (simp add: deductGreen_def decrement_apply ih length_filter_upt_Suc del: upt_Suc)
qed

lemma markYellowGray_step:
  "fst (markYellowGray T G k x) =
     (if charAt T k = charAt G k then fst x
      else if positive (snd (snd (snd x))) (charAt G k) then (fst x)[k := Some Yellow]
      else (fst x)[k := Some Gray])"
  "fst (snd (markYellowGray T G k x)) =
     (if charAt T k \<noteq> charAt G k \<and> positive (snd (snd (snd x))) (charAt G k)
      then insert (charAt G k) (fst (snd x)) else fst (snd x))"
  "fst (snd (snd (markYellowGray T G k x))) =
     (if charAt T k \<noteq> charAt G k \<and> \<not> positive (snd (snd (snd x))) (charAt G k)
      then insert (charAt G k) (fst (snd (snd x))) else fst (snd (snd x)))"
  "snd (snd (snd (markYellowGray T G k x))) =
     (if charAt T k \<noteq> charAt G k \<and> positive (snd (snd (snd x))) (charAt G k)
      then decrement (charAt G k) (snd (snd (snd x))) else snd (snd (snd x)))"
  by (simp_all add: markYellowGray_def split_beta Let_def)

lemma markYellowGray_length:
  "length (fst (fold (markYellowGray T G) [0..<k] x)) = length (fst x)"
  by (induction k) (simp_all add: markYellowGray_step fold_upt_Suc del: upt_Suc)

lemma markYellowGray_tiles:
  "i < length (fst x) \<Longrightarrow>
   fst (fold (markYellowGray T G) [0..<k] x) ! i =
     (if i < k \<and> charAt T i \<noteq> charAt G i
      then (if positive (snd (snd (snd (fold (markYellowGray T G) [0..<i] x)))) (charAt G i)
            then Some Yellow else Some Gray)
      else fst x ! i)"
proof (induction k)
  case 0
  then show ?case by simp
next
  case (Suc k)
  then show ?case
    by (auto simp add: markYellowGray_step fold_upt_Suc markYellowGray_length
        nth_list_update less_Suc_eq simp del: upt_Suc)
qed

lemma available_decrement:
  "positive m letter \<Longrightarrow>
   available (decrement letter m) c = available m c - (if letter = Some c then 1 else 0)"
  by (auto simp: positive_def available_def decrement_def split: option.splits)

lemma positive_available: "positive m (Some c) \<longleftrightarrow> 0 < available m c"
  by (simp add: positive_def available_def split: option.splits)

lemma markYellowGray_counts:
  fixes T G x
  defines "R \<equiv> \<lambda>k. fold (markYellowGray T G) [0..<k] x"
  defines "yellow \<equiv> \<lambda>i. charAt T i \<noteq> charAt G i \<and> positive (snd (snd (snd (R i)))) (charAt G i)"
  shows "available (snd (snd (snd (R k)))) c +
           int (length (filter (\<lambda>i. yellow i \<and> charAt G i = Some c) [0..<k])) =
         available (snd (snd (snd x))) c \<and>
         (0 \<le> available (snd (snd (snd x))) c \<longrightarrow> 0 \<le> available (snd (snd (snd (R k)))) c)"
proof (induction k)
  case 0
  then show ?case by (simp add: R_def)
next
  case (Suc k)
  have step: "R (Suc k) = markYellowGray T G k (R k)"
    by (simp add: R_def)
  show ?case
  proof (cases "yellow k")
    case False
    then have "snd (snd (snd (R (Suc k)))) = snd (snd (snd (R k)))"
      by (auto simp: step markYellowGray_step yellow_def)
    with False Suc show ?thesis
      by (simp add: length_filter_upt_Suc del: upt_Suc)
  next
    case True
    then have pos: "positive (snd (snd (snd (R k)))) (charAt G k)"
      and cnt: "snd (snd (snd (R (Suc k)))) = decrement (charAt G k) (snd (snd (snd (R k))))"
      by (auto simp: step markYellowGray_step yellow_def)
    show ?thesis
    proof (cases "charAt G k = Some c")
      case False
      with True Suc pos show ?thesis
        by (simp add: cnt available_decrement length_filter_upt_Suc del: upt_Suc)
    next
      case eq: True
      with pos have "0 < available (snd (snd (snd (R k)))) c"
        by (simp add: positive_available)
      with True Suc pos eq show ?thesis
        by (simp add: cnt available_decrement length_filter_upt_Suc del: upt_Suc)
    qed
  qed
qed

subsection \<open>The tiles of a guess\<close>

lemma processGuess_no_row:
  "\<not> guessCount s < MAX_GUESSES \<Longrightarrow> processGuess s guess = (False, [], s)"
  by (simp add: processGuess_def)

lemma processGuess_tiles:
  "guessCount s < MAX_GUESSES \<Longrightarrow>
   fst (snd (processGuess s guess)) =
     fst (fold (markYellowGray (wordToGuess s) guess) [0..<WORD_LENGTH]
       (fst (fold (markGreen (wordToGuess s) guess) [0..<WORD_LENGTH]
               (replicate WORD_LENGTH None, greenLetters s, 0)),
        yellowLetters s, grayLetters s,
        fold (deductGreen (wordToGuess s) guess) [0..<WORD_LENGTH] (countLetters (wordToGuess s))))"
  by (simp add: processGuess_def split_beta Let_def)

lemma processGuess_length:
  "guessCount s < MAX_GUESSES \<Longrightarrow> length (fst (snd (processGuess s guess))) = WORD_LENGTH"
  by (simp add: processGuess_tiles markYellowGray_length markGreen_length)

lemma processGuess_correct:
  "guessCount s < MAX_GUESSES \<Longrightarrow>
   fst (processGuess s guess) =
     (length (filter (\<lambda>i. charAt (wordToGuess s) i = charAt guess i) [0..<WORD_LENGTH]) = WORD_LENGTH)"
  by (simp add: processGuess_def split_beta Let_def markGreen_count)

lemma processGuess_green:
  assumes "guessCount s < MAX_GUESSES" "i < WORD_LENGTH"
  shows "fst (snd (processGuess s guess)) ! i = Some Green \<longleftrightarrow>
         charAt (wordToGuess s) i = charAt guess i"
proof (cases "charAt (wordToGuess s) i = charAt guess i")
  case True
  with assms show ?thesis
    by (simp add: processGuess_tiles markYellowGray_tiles markGreen_length markGreen_tiles)
next
  case False
  with assms show ?thesis
    by (simp add: processGuess_tiles markYellowGray_tiles markGreen_length)
qed

lemma all_filter_upt: "length (filter P [0..<n]) = n \<longleftrightarrow> (\<forall>i<n. P i)"
proof (induction n)
  case 0
  then show ?case by simp
next
  case (Suc n)
  have le: "length (filter P [0..<n]) \<le> n"
    using length_filter_le [of P "[0..<n]"] by simp
  show ?case
  proof (cases "P n")
    case True
    with Suc show ?thesis by (auto simp: less_Suc_eq)
  next
    case False
    with le show ?thesis by auto
  qed
qed

lemma charAt_eq_iff:
  assumes "length T = n" "length G = n"
  shows "(\<forall>i<n. charAt T i = charAt G i) \<longleftrightarrow> G = T"
proof
  assume all: "\<forall>i<n. charAt T i = charAt G i"
  have "\<forall>i<length G. G ! i = T ! i"
    using all assms by (simp add: charAt_def)
  with assms show "G = T"
    by (simp add: list_eq_iff_nth_eq)
next
  assume "G = T"
  then show "\<forall>i<n. charAt T i = charAt G i" by simp
qed


lemma processGuess_yellow:
  assumes "guessCount s < MAX_GUESSES" "i < WORD_LENGTH"
  shows "fst (snd (processGuess s guess)) ! i = Some Yellow \<longleftrightarrow>
         charAt (wordToGuess s) i \<noteq> charAt guess i \<and>
         positive (snd (snd (snd (fold (markYellowGray (wordToGuess s) guess) [0..<i]
           (fst (fold (markGreen (wordToGuess s) guess) [0..<WORD_LENGTH]
                   (replicate WORD_LENGTH None, greenLetters s, 0)),
            yellowLetters s, grayLetters s,
            fold (deductGreen (wordToGuess s) guess) [0..<WORD_LENGTH]
              (countLetters (wordToGuess s))))))) (charAt guess i)"
  using assms
  by (simp add: processGuess_tiles markYellowGray_tiles markGreen_length markGreen_tiles)

lemma length_filter_mono:
  "(\<And>x. x \<in> set xs \<Longrightarrow> P x \<Longrightarrow> Q x) \<Longrightarrow> length (filter P xs) \<le> length (filter Q xs)"
  by (induction xs) auto

lemma green_le_count:
  "length (filter (\<lambda>i. charAt T i = charAt G i \<and> charAt G i = Some L) [0..<length T])
     \<le> count_list T L"
proof -
  have "length (filter (\<lambda>i. charAt T i = charAt G i \<and> charAt G i = Some L) [0..<length T])
          \<le> length (filter (\<lambda>i. T ! i = L) [0..<length T])"
    by (rule length_filter_mono) (auto simp: charAt_def split: if_splits)
  then show ?thesis by (simp add: index_count)
qed

lemma green_not_in_target:
  assumes "L \<notin> set T"
  shows "filter (\<lambda>i. charAt T i = charAt G i \<and> charAt G i = Some L) [0..<k] = []"
proof -
  have "charAt T i \<noteq> Some L" for i
    using assms by (auto simp: charAt_def)
  then show ?thesis
    by (auto simp: filter_empty_conv)
qed

text \<open>
  Claim C1. For a target of \<open>WORD_LENGTH\<close> letters and any guess, the tiles that
  \<open>processGuess\<close> paints green or yellow under a letter \<open>L\<close> of the guess are never more
  than the occurrences of \<open>L\<close> in the target. (Without a row nothing is painted.)
\<close>

theorem processGuess_tags_bounded:
  assumes "length (wordToGuess s) = WORD_LENGTH"
  shows "tagged (fst (snd (processGuess s guess))) guess L Green +
         tagged (fst (snd (processGuess s guess))) guess L Yellow
           \<le> count_list (wordToGuess s) L"
proof (cases "guessCount s < MAX_GUESSES")
  case False
  then show ?thesis by (simp add: processGuess_no_row tagged_def)
next
  case row: True
  define T where "T = wordToGuess s"
  define tiles where "tiles = fst (snd (processGuess s guess))"
  define x where
    "x = (fst (fold (markGreen T guess) [0..<WORD_LENGTH]
                 (replicate WORD_LENGTH None, greenLetters s, 0)),
          yellowLetters s, grayLetters s,
          fold (deductGreen T guess) [0..<WORD_LENGTH] (countLetters T))"
  define R where "R = (\<lambda>k. fold (markYellowGray T guess) [0..<k] x)"
  define greens where
    "greens = length (filter (\<lambda>i. charAt T i = charAt guess i \<and> charAt guess i = Some L)
                 [0..<WORD_LENGTH])"
  define yellows where
    "yellows = length (filter (\<lambda>i. (charAt T i \<noteq> charAt guess i \<and>
                   positive (snd (snd (snd (R i)))) (charAt guess i)) \<and> charAt guess i = Some L)
                 [0..<WORD_LENGTH])"
  have len: "length tiles = WORD_LENGTH"
    using row by (simp add: tiles_def processGuess_length)
  have g: "tagged tiles guess L Green = greens"
    unfolding tagged_def greens_def len
    by (rule arg_cong [where f = length], rule filter_cong)
       (auto simp: tiles_def T_def processGuess_green [OF row])
  have y: "tagged tiles guess L Yellow = yellows"
    unfolding tagged_def yellows_def len
    by (rule arg_cong [where f = length], rule filter_cong)
       (auto simp: tiles_def T_def R_def x_def processGuess_yellow [OF row])
  have start: "available (snd (snd (snd x))) L =
                 (if L \<in> set T then int (count_list T L) - int greens else 0)"
    by (simp add: x_def available_def deductGreen_fold greens_def)
  have gle: "greens \<le> count_list T L"
    using green_le_count [of T guess L] assms by (simp add: greens_def T_def)
  have g0: "L \<notin> set T \<Longrightarrow> greens = 0"
    by (simp add: greens_def green_not_in_target)
  have nonneg: "0 \<le> available (snd (snd (snd x))) L"
    using gle by (simp add: start)
  have inv: "available (snd (snd (snd (R WORD_LENGTH)))) L + int yellows =
               available (snd (snd (snd x))) L"
    and "0 \<le> available (snd (snd (snd (R WORD_LENGTH)))) L"
    using markYellowGray_counts [of T guess WORD_LENGTH x L] nonneg
    by (simp_all add: R_def yellows_def)
  then have "int yellows \<le> available (snd (snd (snd x))) L"
    by linarith
  then have "greens + yellows \<le> count_list T L"
    using gle g0 by (auto simp: start split: if_splits)
  then show ?thesis
    by (simp add: g y tiles_def [symmetric] T_def [symmetric])
qed

theorem processGuess_tags_bounded_witness:
  "length (wordToGuess (initialState\<lparr>wordToGuess := ''LEVEL''\<rparr>)) = WORD_LENGTH \<and>
   tagged (fst (snd (processGuess (initialState\<lparr>wordToGuess := ''LEVEL''\<rparr>) ''EERIE'')))
       ''EERIE'' CHR ''E'' Green +
   tagged (fst (snd (processGuess (initialState\<lparr>wordToGuess := ''LEVEL''\<rparr>) ''EERIE'')))
       ''EERIE'' CHR ''E'' Yellow
     \<le> count_list (wordToGuess (initialState\<lparr>wordToGuess := ''LEVEL''\<rparr>)) CHR ''E''"
  using processGuess_tags_bounded
    [of "initialState\<lparr>wordToGuess := ''LEVEL''\<rparr>" "''EERIE''" "CHR ''E''"]
  by (simp add: WORD_LENGTH_def)

text \<open>
  Claim C2. For a target and a guess of \<open>WORD_LENGTH\<close> letters, on a row of the board,
  \<open>processGuess\<close> paints all five tiles green exactly when the guess is the target, and
  exactly then it returns \<^verbatim>\<open>correct\<close>.
\<close>

theorem processGuess_all_green_iff:
  assumes "length (wordToGuess s) = WORD_LENGTH" "length guess = WORD_LENGTH"
    "guessCount s < MAX_GUESSES"
  shows "(fst (snd (processGuess s guess)) = replicate WORD_LENGTH (Some Green)
            \<longleftrightarrow> guess = wordToGuess s) \<and>
         (fst (processGuess s guess) \<longleftrightarrow> guess = wordToGuess s)"
proof -
  have "fst (snd (processGuess s guess)) = replicate WORD_LENGTH (Some Green) \<longleftrightarrow>
        (\<forall>i<WORD_LENGTH. charAt (wordToGuess s) i = charAt guess i)"
    using assms(3)
    by (simp add: list_eq_iff_nth_eq processGuess_length processGuess_green)
  moreover have "fst (processGuess s guess) \<longleftrightarrow>
        (\<forall>i<WORD_LENGTH. charAt (wordToGuess s) i = charAt guess i)"
    using assms(3) by (simp add: processGuess_correct all_filter_upt)
  ultimately show ?thesis
    using charAt_eq_iff [OF assms(1) assms(2)] by simp
qed

theorem processGuess_all_green_iff_witness:
  "length (wordToGuess (initialState\<lparr>wordToGuess := ''APPLE''\<rparr>)) = WORD_LENGTH \<and>
   length ''APPLE'' = WORD_LENGTH \<and>
   guessCount (initialState\<lparr>wordToGuess := ''APPLE''\<rparr>) < MAX_GUESSES \<and>
   fst (snd (processGuess (initialState\<lparr>wordToGuess := ''APPLE''\<rparr>) ''APPLE'')) =
     replicate WORD_LENGTH (Some Green) \<and>
   fst (processGuess (initialState\<lparr>wordToGuess := ''APPLE''\<rparr>) ''APPLE'')"
  using processGuess_all_green_iff
    [of "initialState\<lparr>wordToGuess := ''APPLE''\<rparr>" "''APPLE''"]
  by (simp add: WORD_LENGTH_def MAX_GUESSES_def initialState_def)

section \<open>Properties of the game\<close>

subsection \<open>What a guess and a hint leave alone\<close>

lemma markYellowGray_letters:
  "fst (snd x) \<subseteq> fst (snd (fold (markYellowGray T G) [0..<k] x)) \<and>
   fst (snd (snd x)) \<subseteq> fst (snd (snd (fold (markYellowGray T G) [0..<k] x)))"
  by (induction k) (auto simp add: markYellowGray_step fold_upt_Suc simp del: upt_Suc)

lemma processGuess_frame:
  "wordToGuess (snd (snd (processGuess s guess))) = wordToGuess s"
  "guessCount (snd (snd (processGuess s guess))) = guessCount s"
  "points (snd (snd (processGuess s guess))) = points s"
  "revealedHintIndices (snd (snd (processGuess s guess))) = revealedHintIndices s"
  "validWords (snd (snd (processGuess s guess))) = validWords s"
  "streak (snd (snd (processGuess s guess))) = streak s"
  "gameOver (snd (snd (processGuess s guess))) = gameOver s"
  by (simp_all add: processGuess_def split_beta Let_def)

lemma processGuess_letters:
  "greenLetters s \<subseteq> greenLetters (snd (snd (processGuess s guess)))"
  "yellowLetters s \<subseteq> yellowLetters (snd (snd (processGuess s guess)))"
  "grayLetters s \<subseteq> grayLetters (snd (snd (processGuess s guess)))"
proof -
  show "greenLetters s \<subseteq> greenLetters (snd (snd (processGuess s guess)))"
    by (simp add: processGuess_def split_beta Let_def markGreen_letters)
  show "yellowLetters s \<subseteq> yellowLetters (snd (snd (processGuess s guess)))"
    using markYellowGray_letters [of "(t, yellowLetters s, grayLetters s, m)" for t m]
    by (simp add: processGuess_def split_beta Let_def)
  show "grayLetters s \<subseteq> grayLetters (snd (snd (processGuess s guess)))"
    using markYellowGray_letters [of "(t, yellowLetters s, grayLetters s, m)" for t m]
    by (simp add: processGuess_def split_beta Let_def)
qed

lemma handleWin_eq:
  "handleWin s =
     (Congratulations (guessCount s) (if guessCount s \<le> 2 then 6 else 3),
      s\<lparr>gameOver := True, points := points s + (if guessCount s \<le> 2 then 6 else 3),
        streak := streak s + 1\<rparr>)"
  by (simp add: handleWin_def updatePoints_def updateStreak_def Let_def)

lemma handleLoss_eq:
  "handleLoss s = (GameOverWordWas (wordToGuess s), s\<lparr>gameOver := True, streak := 0\<rparr>)"
  by (simp add: handleLoss_def resetStreak_def Let_def)

lemma makeGuess_accepted:
  assumes "\<not> gameOver s" "guessCount s < MAX_GUESSES" "acceptable s v"
  shows "makeGuess s v =
     (let p = processGuess s (toUpperCase v);
          s2 = (snd (snd p))\<lparr>guessCount := guessCount s + 1\<rparr>
      in if fst p then (Some (fst (handleWin s2)), fst (snd p), snd (handleWin s2))
         else if guessCount s + 1 \<ge> MAX_GUESSES
         then (Some (fst (handleLoss s2)), fst (snd p), snd (handleLoss s2))
         else (None, fst (snd p), s2))"
  using assms
  by (simp add: makeGuess_def acceptable_def split_beta Let_def processGuess_frame)

lemma makeGuess_refused:
  assumes "gameOver s \<or> MAX_GUESSES \<le> guessCount s \<or> \<not> acceptable s v"
  shows "snd (snd (makeGuess s v)) = s" "fst (snd (makeGuess s v)) = []"
  using assms
  by (auto simp add: makeGuess_def acceptable_def split_beta Let_def)

lemma makeGuess_frame:
  "wordToGuess (snd (snd (makeGuess s v))) = wordToGuess s"
  "validWords (snd (snd (makeGuess s v))) = validWords s"
  "revealedHintIndices (snd (snd (makeGuess s v))) = revealedHintIndices s"
proof -
  consider "gameOver s \<or> MAX_GUESSES \<le> guessCount s \<or> \<not> acceptable s v"
    | "\<not> gameOver s" "guessCount s < MAX_GUESSES" "acceptable s v"
    by fastforce
  then have "wordToGuess (snd (snd (makeGuess s v))) = wordToGuess s \<and>
      validWords (snd (snd (makeGuess s v))) = validWords s \<and>
      revealedHintIndices (snd (snd (makeGuess s v))) = revealedHintIndices s"
  proof cases
    case 1
    then show ?thesis by (simp add: makeGuess_refused)
  next
    case 2
    then show ?thesis
      by (simp add: makeGuess_accepted Let_def handleWin_eq handleLoss_eq processGuess_frame)
  qed
  then show "wordToGuess (snd (snd (makeGuess s v))) = wordToGuess s"
    "validWords (snd (snd (makeGuess s v))) = validWords s"
    "revealedHintIndices (snd (snd (makeGuess s v))) = revealedHintIndices s"
    by simp_all
qed

lemma makeGuess_letters:
  "greenLetters s \<subseteq> greenLetters (snd (snd (makeGuess s v))) \<and>
   yellowLetters s \<subseteq> yellowLetters (snd (snd (makeGuess s v))) \<and>
   grayLetters s \<subseteq> grayLetters (snd (snd (makeGuess s v)))"
proof -
  consider "gameOver s \<or> MAX_GUESSES \<le> guessCount s \<or> \<not> acceptable s v"
    | "\<not> gameOver s" "guessCount s < MAX_GUESSES" "acceptable s v"
    by fastforce
  then show ?thesis
  proof cases
    case 1
    then show ?thesis by (simp add: makeGuess_refused)
  next
    case 2
    then show ?thesis
      using processGuess_letters [of s "toUpperCase v"]
      by (simp add: makeGuess_accepted Let_def handleWin_eq handleLoss_eq)
  qed
qed

lemma buyHint_frame:
  "wordToGuess (snd (buyHint s r)) = wordToGuess s"
  "validWords (snd (buyHint s r)) = validWords s"
  "guessCount (snd (buyHint s r)) = guessCount s"
  "gameOver (snd (buyHint s r)) = gameOver s"
  "streak (snd (buyHint s r)) = streak s"
  "greenLetters (snd (buyHint s r)) = greenLetters s"
  "yellowLetters (snd (buyHint s r)) = yellowLetters s"
  "grayLetters (snd (buyHint s r)) = grayLetters s"
  by (simp_all add: buyHint_def updatePoints_def Let_def)

lemma step_letters:
  "greenLetters s \<subseteq> greenLetters (step s a) \<and>
   yellowLetters s \<subseteq> yellowLetters (step s a) \<and>
   grayLetters s \<subseteq> grayLetters (step s a)"
  using makeGuess_letters by (cases a) (simp_all add: step_def buyHint_frame)

lemma play_Cons: "play s (a # as) = play (step s a) as"
  by (simp add: play_def)

lemma play_append: "play s (as @ bs) = play (play s as) bs"
  by (simp add: play_def)

lemma play_letters:
  "greenLetters s \<subseteq> greenLetters (play s as) \<and>
   yellowLetters s \<subseteq> yellowLetters (play s as) \<and>
   grayLetters s \<subseteq> grayLetters (play s as)"
proof (induction as arbitrary: s)
  case Nil
  then show ?case by (simp add: play_def)
next
  case (Cons a as)
  from step_letters [of s a] Cons [of "step s a"] show ?case
    unfolding play_Cons by blast
qed

lemma rank_createKey_mono:
  assumes "greenLetters s \<subseteq> greenLetters s'" "yellowLetters s \<subseteq> yellowLetters s'"
    "grayLetters s \<subseteq> grayLetters s'"
  shows "rank (createKey s L) \<le> rank (createKey s' L)"
  using assms by (auto simp: createKey_def)

subsection \<open>The keyboard\<close>

text \<open>
  Claim C3. Within one game, whatever the player does (guesses and hints, in any order),
  the rank of a letter's key (unknown, absent, present, correct) never decreases: the key
  of a letter after the actions \<open>as\<close> ranks no higher than after \<open>as\<close> followed by \<open>bs\<close>.
\<close>

theorem key_rank_never_decreases:
  "rank (createKey (play s as) L) \<le> rank (createKey (play s (as @ bs)) L)"
  unfolding play_append
  using play_letters [of "play s as" bs] by (simp add: rank_createKey_mono)

subsection \<open>A new game\<close>

text \<open>
  Claim C10. \<open>newGame\<close> leaves the points, the streak and the word list as they are.
\<close>

theorem newGame_keeps_score_and_words:
  "points (newGame s r) = points s \<and> streak (newGame s r) = streak s \<and>
   validWords (newGame s r) = validWords s"
  by (simp add: newGame_def Let_def)

subsection \<open>Rejected guesses\<close>

text \<open>
  Claim C4, as amended. \<open>makeGuess\<close> runs its checks in order, on the upper-cased text of
  the input, and each of them leaves the state as it is. A game that is over answers
  ``Game is over''. In a game that is not over (in a consistent state, as every reachable
  one is): an upper-cased guess whose length is not \<open>WORD_LENGTH\<close> answers ``Enter a 5
  letter word''; one of that length that is not made of the letters A to Z answers
  ``Word contains illegal characters''; and one of five letters A to Z that a non-empty
  word list does not hold answers ``Word not in dictionary''.
\<close>

theorem makeGuess_rejects:
  "(gameOver s \<longrightarrow> makeGuess s raw = (Some GameIsOver, [], s)) \<and>
   (\<not> gameOver s \<and> consistent s \<and> length (toUpperCase raw) \<noteq> WORD_LENGTH \<longrightarrow>
      makeGuess s raw = (Some EnterWordOfLength, [], s)) \<and>
   (\<not> gameOver s \<and> consistent s \<and> length (toUpperCase raw) = WORD_LENGTH \<and>
    \<not> matchAZ (toUpperCase raw) \<longrightarrow>
      makeGuess s raw = (Some IllegalCharacters, [], s)) \<and>
   (\<not> gameOver s \<and> consistent s \<and> length (toUpperCase raw) = WORD_LENGTH \<and>
    matchAZ (toUpperCase raw) \<and> validWords s \<noteq> [] \<and>
    toUpperCase raw \<notin> set (validWords s) \<longrightarrow>
      makeGuess s raw = (Some NotInDictionary, [], s))"
proof -
  have left: "\<not> gameOver s \<Longrightarrow> consistent s \<Longrightarrow> \<not> guessCount s \<ge> MAX_GUESSES"
    by (auto simp: consistent_def)
  show ?thesis
    using left by (simp add: makeGuess_def Let_def)
qed

theorem makeGuess_rejects_witness:
  "gameOver (play (exampleState 3) [Guess ''level'']) \<and>
   makeGuess (play (exampleState 3) [Guess ''level'']) ''elbow'' =
     (Some GameIsOver, [], play (exampleState 3) [Guess ''level'']) \<and>
   \<not> gameOver (exampleState 3) \<and> consistent (exampleState 3) \<and>
   length (toUpperCase ''leve'') \<noteq> WORD_LENGTH \<and>
   makeGuess (exampleState 3) ''leve'' = (Some EnterWordOfLength, [], exampleState 3) \<and>
   length (toUpperCase ''lev3l'') = WORD_LENGTH \<and> \<not> matchAZ (toUpperCase ''lev3l'') \<and>
   makeGuess (exampleState 3) ''lev3l'' = (Some IllegalCharacters, [], exampleState 3) \<and>
   length (toUpperCase ''ranch'') = WORD_LENGTH \<and> matchAZ (toUpperCase ''ranch'') \<and>
   validWords (exampleState 3) \<noteq> [] \<and> toUpperCase ''ranch'' \<notin> set (validWords (exampleState 3)) \<and>
   makeGuess (exampleState 3) ''ranch'' = (Some NotInDictionary, [], exampleState 3)"
proof -
  have over: "gameOver (play (exampleState 3) [Guess ''level''])"
    by code_simp
  have s: "\<not> gameOver (exampleState 3) \<and> consistent (exampleState 3)"
    by code_simp
  have a: "length (toUpperCase ''leve'') \<noteq> WORD_LENGTH"
    by code_simp
  have b: "length (toUpperCase ''lev3l'') = WORD_LENGTH \<and> \<not> matchAZ (toUpperCase ''lev3l'')"
    by code_simp
  have c: "length (toUpperCase ''ranch'') = WORD_LENGTH \<and> matchAZ (toUpperCase ''ranch'') \<and>
      validWords (exampleState 3) \<noteq> [] \<and> toUpperCase ''ranch'' \<notin> set (validWords (exampleState 3))"
    by code_simp
  have 1: "makeGuess (play (exampleState 3) [Guess ''level'']) ''elbow'' =
     (Some GameIsOver, [], play (exampleState 3) [Guess ''level''])"
    using over makeGuess_rejects [of "play (exampleState 3) [Guess ''level'']" "''elbow''"]
    by simp
  have 2: "makeGuess (exampleState 3) ''leve'' = (Some EnterWordOfLength, [], exampleState 3)"
    using s a makeGuess_rejects [of "exampleState 3" "''leve''"] by simp
  have 3: "makeGuess (exampleState 3) ''lev3l'' = (Some IllegalCharacters, [], exampleState 3)"
    using s b makeGuess_rejects [of "exampleState 3" "''lev3l''"] by simp
  have 4: "makeGuess (exampleState 3) ''ranch'' = (Some NotInDictionary, [], exampleState 3)"
    using s c makeGuess_rejects [of "exampleState 3" "''ranch''"] by simp
  show ?thesis
    using over s a b c 1 2 3 4 by simp
qed

text \<open>
  Claim C4 as stated fails in two ways. In a game that is over (here after a win) a guess
  of four letters is answered ``Game is over'', not ``Enter a 5 letter word''. And the
  length that is checked is that of the upper-cased text: with ``MASSE'' in the list, the
  four characters m, a, sharp s, e are upper-cased to ``MASSE'', pass every check and use
  up a guess.
\<close>

theorem makeGuess_raw_length_counterexample:
  "gameOver (play (exampleState 3) [Guess ''level'']) \<and>
   length ''leve'' \<noteq> WORD_LENGTH \<and>
   fst (makeGuess (play (exampleState 3) [Guess ''level'']) ''leve'') \<noteq> Some EnterWordOfLength \<and>
   \<not> gameOver masseState \<and> guessCount masseState = 0 \<and>
   length (''ma'' @ [CHR 0xDF] @ ''e'') \<noteq> WORD_LENGTH \<and>
   fst (makeGuess masseState (''ma'' @ [CHR 0xDF] @ ''e'')) = None \<and>
   guessCount (snd (snd (makeGuess masseState (''ma'' @ [CHR 0xDF] @ ''e'')))) = 1"
  by code_simp

subsection \<open>The reward\<close>

text \<open>
  Claim C6. \<open>handleWin\<close> awards 6 points when \<open>guessCount\<close> is at most 2 and 3 points
  otherwise, adds them to the points and adds 1 to the streak; and when \<open>makeGuess\<close>
  congratulates, the count it reports is the number of guesses used, this one included,
  the award follows that count, and points and streak have grown by the award and by 1.
\<close>

theorem win_awards_points:
  "handleWin s =
     (Congratulations (guessCount s) (if guessCount s \<le> 2 then 6 else 3),
      s\<lparr>gameOver := True, points := points s + (if guessCount s \<le> 2 then 6 else 3),
        streak := streak s + 1\<rparr>) \<and>
   (fst (makeGuess s v) = Some (Congratulations n p) \<longrightarrow>
      n = guessCount s + 1 \<and> p = (if n \<le> 2 then 6 else 3) \<and>
      points (snd (snd (makeGuess s v))) = points s + p \<and>
      streak (snd (snd (makeGuess s v))) = streak s + 1)"
proof (intro conjI impI)
  show "handleWin s =
     (Congratulations (guessCount s) (if guessCount s \<le> 2 then 6 else 3),
      s\<lparr>gameOver := True, points := points s + (if guessCount s \<le> 2 then 6 else 3),
        streak := streak s + 1\<rparr>)"
    by (rule handleWin_eq)
next
  assume win: "fst (makeGuess s v) = Some (Congratulations n p)"
  have acc: "\<not> gameOver s \<and> guessCount s < MAX_GUESSES \<and> acceptable s v"
    using win by (auto simp: makeGuess_def acceptable_def Let_def split: if_splits)
  then have eq: "makeGuess s v =
     (let p = processGuess s (toUpperCase v);
          s2 = (snd (snd p))\<lparr>guessCount := guessCount s + 1\<rparr>
      in if fst p then (Some (fst (handleWin s2)), fst (snd p), snd (handleWin s2))
         else if guessCount s + 1 \<ge> MAX_GUESSES
         then (Some (fst (handleLoss s2)), fst (snd p), snd (handleLoss s2))
         else (None, fst (snd p), s2))"
    by (simp add: makeGuess_accepted)
  have correct: "fst (processGuess s (toUpperCase v))"
    using win unfolding eq by (auto simp: Let_def handleLoss_eq split: if_splits)
  show "n = guessCount s + 1" "p = (if n \<le> 2 then 6 else 3)"
    "points (snd (snd (makeGuess s v))) = points s + p"
    "streak (snd (snd (makeGuess s v))) = streak s + 1"
    using win correct unfolding eq
    by (auto simp: Let_def handleWin_eq processGuess_frame)
qed

theorem win_awards_points_witness:
  "fst (makeGuess (exampleState 3) ''level'') = Some (Congratulations 1 6) \<and>
   points (snd (snd (makeGuess (exampleState 3) ''level''))) = points (exampleState 3) + 6 \<and>
   streak (snd (snd (makeGuess (exampleState 3) ''level''))) = streak (exampleState 3) + 1"
proof -
  have "fst (makeGuess (exampleState 3) ''level'') = Some (Congratulations 1 6)"
    by code_simp
  then show ?thesis
    using win_awards_points [of "exampleState 3" "''level''" 1 6] by simp
qed

subsection \<open>Buying a hint\<close>

text \<open>
  Claim C7, as amended. In a game that is over \<open>buyHint\<close> answers ``Game is over'',
  whatever the points. In a game that is not over it answers ``You don't have enough
  points'' when the points are below 5, and changes nothing in either case; with 5 points
  or more and a position not yet revealed it deducts exactly 5 points.
\<close>

theorem buyHint_in_progress:
  "(gameOver s \<longrightarrow> buyHint s r = (Refused GameIsOver, s)) \<and>
   (\<not> gameOver s \<and> points s < 5 \<longrightarrow> buyHint s r = (Refused NotEnoughPoints, s)) \<and>
   (\<not> gameOver s \<and> 5 \<le> points s \<and> (\<exists>i<WORD_LENGTH. i \<notin> set (revealedHintIndices s)) \<longrightarrow>
      points (snd (buyHint s r)) = points s - 5)"
proof -
  have "\<exists>i<WORD_LENGTH. i \<notin> set (revealedHintIndices s) \<Longrightarrow>
        filter (\<lambda>i. i \<notin> set (revealedHintIndices s)) [0..<WORD_LENGTH] \<noteq> []"
    by (auto simp: filter_empty_conv)
  then show ?thesis
    by (auto simp: buyHint_def Let_def updatePoints_def)
qed


theorem buyHint_in_progress_witness:
  "gameOver (play (exampleState 3) [Guess ''level'']) \<and>
   buyHint (play (exampleState 3) [Guess ''level'']) 0 =
     (Refused GameIsOver, play (exampleState 3) [Guess ''level'']) \<and>
   \<not> gameOver (exampleState 3) \<and> points (exampleState 3) < 5 \<and>
   buyHint (exampleState 3) 0 = (Refused NotEnoughPoints, exampleState 3) \<and>
   \<not> gameOver (exampleState 7) \<and> 5 \<le> points (exampleState 7) \<and>
   (\<exists>i<WORD_LENGTH. i \<notin> set (revealedHintIndices (exampleState 7))) \<and>
   points (snd (buyHint (exampleState 7) 0)) = points (exampleState 7) - 5"
proof -
  have a: "gameOver (play (exampleState 3) [Guess ''level''])"
    by code_simp
  have b: "\<not> gameOver (exampleState 3) \<and> points (exampleState 3) < 5"
    by code_simp
  have c: "\<not> gameOver (exampleState 7) \<and> 5 \<le> points (exampleState 7)"
    by code_simp
  have "0 < WORD_LENGTH \<and> 0 \<notin> set (revealedHintIndices (exampleState 7))"
    by code_simp
  then have d: "\<exists>i<WORD_LENGTH. i \<notin> set (revealedHintIndices (exampleState 7))"
    by blast
  show ?thesis
    using a b c d
      buyHint_in_progress [of "play (exampleState 3) [Guess ''level'']" 0]
      buyHint_in_progress [of "exampleState 3" 0]
      buyHint_in_progress [of "exampleState 7" 0]
    by blast
qed

text \<open>
  Claim C7 as stated fails once the game is over: after six wrong guesses, with 3 points,
  the answer is not ``not enough points''; and after a win, with 9 points and nothing
  revealed, no points are deducted.
\<close>

theorem buyHint_game_over_counterexample:
  "points (play (exampleState 3) (map Guess (replicate 6 ''elbow''))) < 5 \<and>
   fst (buyHint (play (exampleState 3) (map Guess (replicate 6 ''elbow''))) 0)
     \<noteq> Refused NotEnoughPoints \<and>
   5 \<le> points (play (exampleState 3) [Guess ''level'']) \<and>
   0 \<notin> set (revealedHintIndices (play (exampleState 3) [Guess ''level''])) \<and>
   points (snd (buyHint (play (exampleState 3) [Guess ''level'']) 0))
     \<noteq> points (play (exampleState 3) [Guess ''level'']) - 5"
  by code_simp

subsection \<open>The word list\<close>

lemma wordListOf_length: "w \<in> set (wordListOf data) \<Longrightarrow> length w = WORD_LENGTH"
  by (simp add: wordListOf_def)

lemma wordListOf_lines:
  "w \<in> set (wordListOf data) \<Longrightarrow>
   w \<in> (\<lambda>word. toUpperCase (trim word)) ` set (split CHR 0x0A data)"
  by (auto simp: wordListOf_def)

lemma fetchWordList_validWords:
  "validWords (snd (fetchWordList s response r)) =
     (case response of
        None \<Rightarrow> validWords s
      | Some data \<Rightarrow> if wordListOf data = [] then validWords s else wordListOf data)"
  by (simp add: fetchWordList_def Let_def split: option.splits)

text \<open>
  Claim C9, as amended. Starting from the empty list, every word of the list that
  \<open>fetchWordList\<close> stores has exactly \<open>WORD_LENGTH\<close> characters and is the trimmed,
  upper-cased form of a line of the text. Nothing is asked of its characters.
\<close>

theorem fetchWordList_keeps_by_length:
  assumes "validWords s = []"
  shows "\<forall>w \<in> set (validWords (snd (fetchWordList s response r))).
           length w = WORD_LENGTH \<and>
           (\<exists>data. response = Some data \<and>
              w \<in> (\<lambda>word. toUpperCase (trim word)) ` set (split CHR 0x0A data))"
  using assms wordListOf_length wordListOf_lines
  by (auto simp: fetchWordList_validWords split: option.splits if_splits)

theorem fetchWordList_keeps_by_length_witness:
  "validWords initialState = [] \<and>
   validWords (snd (fetchWordList initialState (Some exampleList) 0)) =
     [''LEVEL'', ''APPLE'', ''ELBOW'', ''EERIE'', ''CRANE''] \<and>
   list_all
     (\<lambda>w. length w = WORD_LENGTH \<and>
        (\<exists>data. Some exampleList = Some data \<and>
           w \<in> (\<lambda>word. toUpperCase (trim word)) ` set (split CHR 0x0A data)))
     (validWords (snd (fetchWordList initialState (Some exampleList) 0)))"
proof -
  have e: "validWords initialState = []"
    by (simp add: initialState_def)
  have "validWords (snd (fetchWordList initialState (Some exampleList) 0)) =
     [''LEVEL'', ''APPLE'', ''ELBOW'', ''EERIE'', ''CRANE'']"
    by code_simp
  then show ?thesis
    using e fetchWordList_keeps_by_length [OF e, of "Some exampleList" 0]
    unfolding list_all_iff by blast
qed

text \<open>
  Claim C9 as stated fails: the line ``12345'' has five characters and is kept, and it is
  not a word over A to Z.
\<close>

theorem fetchWordList_keeps_digits_counterexample:
  "validWords (snd (fetchWordList initialState (Some ''12345'') 0)) = [''12345''] \<and>
   \<not> matchAZ ''12345''"
  by code_simp

subsection \<open>Reachable states are consistent\<close>

lemma consistent_loaded: "consistent (loadSavedData initialState savedPoints savedStreak)"
  by (simp add: consistent_def loadSavedData_def initialState_def MAX_GUESSES_def Let_def
      split: option.splits)

lemma consistent_fetched:
  assumes "consistent s"
  shows "consistent (snd (fetchWordList s response r))"
proof (cases response)
  case None
  with assms show ?thesis
    by (simp add: consistent_def fetchWordList_def WORD_LENGTH_def)
next
  case (Some data)
  show ?thesis
  proof (cases "wordListOf data = []")
    case True
    with Some assms show ?thesis
      by (simp add: consistent_def fetchWordList_def WORD_LENGTH_def)
  next
    case False
    then have "wordListOf data ! floorRandom r (length (wordListOf data)) \<in> set (wordListOf data)"
      by (simp add: floorRandom_def)
    then have "length (wordListOf data ! floorRandom r (length (wordListOf data))) = WORD_LENGTH"
      by (rule wordListOf_length)
    with Some False assms show ?thesis
      by (simp add: consistent_def fetchWordList_def Let_def list_all_iff wordListOf_length)
  qed
qed

lemma consistent_guessed:
  assumes "consistent s"
  shows "consistent (snd (snd (makeGuess s v)))"
proof -
  consider "gameOver s \<or> MAX_GUESSES \<le> guessCount s \<or> \<not> acceptable s v"
    | "\<not> gameOver s" "guessCount s < MAX_GUESSES" "acceptable s v"
    by fastforce
  then show ?thesis
  proof cases
    case 1
    with assms show ?thesis by (simp add: makeGuess_refused)
  next
    case 2
    with assms show ?thesis
      by (auto simp: makeGuess_accepted Let_def handleWin_eq handleLoss_eq processGuess_frame
          consistent_def)
  qed
qed

lemma consistent_hinted: "consistent s \<Longrightarrow> consistent (snd (buyHint s r))"
  by (simp add: consistent_def buyHint_frame)

lemma consistent_restarted:
  assumes "consistent s"
  shows "consistent (newGame s r)"
proof (cases "validWords s = []")
  case True
  with assms show ?thesis
    by (simp add: consistent_def newGame_def Let_def MAX_GUESSES_def)
next
  case False
  then have "validWords s ! floorRandom r (length (validWords s)) \<in> set (validWords s)"
    by (simp add: floorRandom_def)
  with assms have "length (validWords s ! floorRandom r (length (validWords s))) = WORD_LENGTH"
    by (simp add: consistent_def list_all_iff)
  with False assms show ?thesis
    by (simp add: consistent_def newGame_def Let_def MAX_GUESSES_def)
qed

lemma reachable_consistent: "reachable s \<Longrightarrow> consistent s"
  by (induction rule: reachable.induct)
     (simp_all add: consistent_loaded consistent_fetched consistent_guessed consistent_hinted
        consistent_restarted)

subsection \<open>Winning and losing\<close>












subsection \<open>Hints never repeat\<close>

lemma buyHint_revealed:
  assumes "fst (buyHint s r) = Revealed i l"
  shows "i < WORD_LENGTH" "i \<notin> set (revealedHintIndices s)"
    "revealedHintIndices (snd (buyHint s r)) = revealedHintIndices s @ [i]"
proof -
  define availableIndices where
    "availableIndices = filter (\<lambda>i. i \<notin> set (revealedHintIndices s)) [0..<WORD_LENGTH]"
  have ne: "availableIndices \<noteq> []"
    and i: "i = availableIndices ! floorRandom r (length availableIndices)"
    and upd: "revealedHintIndices (snd (buyHint s r)) = revealedHintIndices s @ [i]"
    using assms
    by (auto simp: buyHint_def Let_def updatePoints_def availableIndices_def split: if_splits)
  from ne have "i \<in> set availableIndices"
    unfolding i by (simp add: floorRandom_def)
  then show "i < WORD_LENGTH" "i \<notin> set (revealedHintIndices s)"
    by (simp_all add: availableIndices_def)
  from upd show "revealedHintIndices (snd (buyHint s r)) = revealedHintIndices s @ [i]" .
qed

lemma buyHint_indices:
  "set (revealedHintIndices s) \<subseteq> set (revealedHintIndices (snd (buyHint s r)))"
  by (auto simp: buyHint_def Let_def updatePoints_def)

lemma step_indices:
  "set (revealedHintIndices s) \<subseteq> set (revealedHintIndices (step s a))"
  using buyHint_indices by (cases a) (simp_all add: step_def makeGuess_frame)

lemma revealedBy_indices:
  "distinct (revealedBy s as) \<and>
   set (revealedBy s as) \<inter> set (revealedHintIndices s) = {} \<and>
   set (revealedBy s as) \<subseteq> {..<WORD_LENGTH} \<and>
   set (revealedHintIndices s) \<union> set (revealedBy s as) \<subseteq> set (revealedHintIndices (play s as))"
proof (induction as arbitrary: s)
  case Nil
  then show ?case by (simp add: play_def)
next
  case (Cons a as)
  note IH = Cons [of "step s a"]
  show ?case
  proof (cases "\<exists>r i l. a = Hint r \<and> fst (buyHint s r) = Revealed i l")
    case False
    then have "revealedBy s (a # as) = revealedBy (step s a) as"
      by (cases a) (auto split: hintResult.splits)
    with IH step_indices [of s a] show ?thesis
      unfolding play_Cons by auto
  next
    case True
    then obtain r i l where a: "a = Hint r" and b: "fst (buyHint s r) = Revealed i l"
      by blast
    have here: "revealedBy s (a # as) = i # revealedBy (step s a) as"
      by (simp add: a b)
    have new: "revealedHintIndices (step s a) = revealedHintIndices s @ [i]"
      using buyHint_revealed(3) [OF b] by (simp add: step_def a)
    from IH buyHint_revealed(1,2) [OF b] show ?thesis
      unfolding play_Cons here new by auto
  qed
qed

lemma all_indices:
  assumes "distinct xs" "set xs \<subseteq> {..<n}" "length xs = n"
  shows "set xs = {..<n}"
proof -
  have "card (set xs) = card {..<n}"
    using assms by (simp add: distinct_card)
  with assms(2) show ?thesis
    by (simp add: card_subset_eq)
qed

lemma all_revealed:
  assumes "length (revealedBy s as) = WORD_LENGTH" "\<not> gameOver (play s as)"
    "5 \<le> points (play s as)"
  shows "buyHint (play s as) r = (Refused AllLettersRevealed, play s as)"
proof -
  have "set (revealedBy s as) = {..<WORD_LENGTH}"
    using revealedBy_indices [of s as] assms by (simp add: all_indices)
  then have "{..<WORD_LENGTH} \<subseteq> set (revealedHintIndices (play s as))"
    using revealedBy_indices [of s as] by auto
  then have "filter (\<lambda>i. i \<notin> set (revealedHintIndices (play s as))) [0..<WORD_LENGTH] = []"
    by (auto simp: filter_empty_conv)
  with assms show ?thesis
    by (simp add: buyHint_def Let_def)
qed

lemma hints_keep_gameOver: "gameOver (play s (map Hint rs)) = gameOver s"
  by (induction rs arbitrary: s) (simp_all add: play_def step_def buyHint_frame)

lemma no_hint_when_over: "gameOver s \<Longrightarrow> revealedBy s (map Hint rs) = []"
proof (induction rs arbitrary: s)
  case Nil
  then show ?case by simp
next
  case (Cons r rs)
  then have "buyHint s r = (Refused GameIsOver, s)"
    by (simp add: buyHint_def)
  with Cons show ?case
    by (simp add: step_def)
qed

text \<open>
  Claim C8, as amended. In any run of guesses and hints of one game, no position is
  revealed twice. Once \<open>WORD_LENGTH\<close> hints were revealed, a further \<open>buyHint\<close> with 5
  points or more, while the game is not over, answers ``All letters have been revealed as
  hints!'' and changes nothing; where the run is of hints alone the game is not over by
  itself. Once the game is over \<open>buyHint\<close> answers ``Game is over'' and changes nothing.
\<close>

theorem hints_never_repeat:
  "distinct (revealedBy s as) \<and>
   (length (revealedBy s as) = WORD_LENGTH \<and> \<not> gameOver (play s as) \<and> 5 \<le> points (play s as)
      \<longrightarrow> buyHint (play s as) r = (Refused AllLettersRevealed, play s as)) \<and>
   (length (revealedBy s (map Hint rs)) = WORD_LENGTH \<and> 5 \<le> points (play s (map Hint rs))
      \<longrightarrow> buyHint (play s (map Hint rs)) r =
            (Refused AllLettersRevealed, play s (map Hint rs))) \<and>
   (gameOver (play s as) \<longrightarrow> buyHint (play s as) r = (Refused GameIsOver, play s as))"
proof (intro conjI impI)
  show "distinct (revealedBy s as)"
    using revealedBy_indices [of s as] by simp
next
  assume "gameOver (play s as)"
  then show "buyHint (play s as) r = (Refused GameIsOver, play s as)"
    by (simp add: buyHint_def)
next
  assume "length (revealedBy s as) = WORD_LENGTH \<and> \<not> gameOver (play s as) \<and>
          5 \<le> points (play s as)"
  then show "buyHint (play s as) r = (Refused AllLettersRevealed, play s as)"
    by (simp add: all_revealed)
next
  assume a: "length (revealedBy s (map Hint rs)) = WORD_LENGTH \<and>
             5 \<le> points (play s (map Hint rs))"
  then have "revealedBy s (map Hint rs) \<noteq> []"
    by (auto simp: WORD_LENGTH_def)
  then have "\<not> gameOver s"
    using no_hint_when_over [of s rs] by blast
  then have "\<not> gameOver (play s (map Hint rs))"
    by (simp add: hints_keep_gameOver)
  with a show "buyHint (play s (map Hint rs)) r =
                 (Refused AllLettersRevealed, play s (map Hint rs))"
    by (simp add: all_revealed)
qed

theorem hints_never_repeat_witness:
  "distinct (revealedBy (exampleState 30)
     [Hint 0, Hint 1, Guess ''elbow'', Hint 2, Hint 7, Hint 0]) \<and>
   length (revealedBy (exampleState 30)
     [Hint 0, Hint 1, Guess ''elbow'', Hint 2, Hint 7, Hint 0]) = WORD_LENGTH \<and>
   \<not> gameOver (play (exampleState 30) [Hint 0, Hint 1, Guess ''elbow'', Hint 2, Hint 7, Hint 0]) \<and>
   5 \<le> points (play (exampleState 30) [Hint 0, Hint 1, Guess ''elbow'', Hint 2, Hint 7, Hint 0]) \<and>
   buyHint (play (exampleState 30) [Hint 0, Hint 1, Guess ''elbow'', Hint 2, Hint 7, Hint 0]) 4 =
     (Refused AllLettersRevealed,
      play (exampleState 30) [Hint 0, Hint 1, Guess ''elbow'', Hint 2, Hint 7, Hint 0]) \<and>
   length (revealedBy (exampleState 30) (map Hint [3, 3, 3, 3, 3])) = WORD_LENGTH \<and>
   5 \<le> points (play (exampleState 30) (map Hint [3, 3, 3, 3, 3])) \<and>
   buyHint (play (exampleState 30) (map Hint [3, 3, 3, 3, 3])) 4 =
     (Refused AllLettersRevealed, play (exampleState 30) (map Hint [3, 3, 3, 3, 3])) \<and>
   gameOver (play (exampleState 30) [Guess ''level'']) \<and>
   buyHint (play (exampleState 30) [Guess ''level'']) 4 =
     (Refused GameIsOver, play (exampleState 30) [Guess ''level''])"
proof -
  have over: "gameOver (play (exampleState 30) [Guess ''level''])"
    by code_simp
  have last: "buyHint (play (exampleState 30) [Guess ''level'']) 4 =
     (Refused GameIsOver, play (exampleState 30) [Guess ''level''])"
    using over hints_never_repeat [of "exampleState 30" "[Guess ''level'']" 4 "[]"]
    by blast
  have "length (revealedBy (exampleState 30)
     [Hint 0, Hint 1, Guess ''elbow'', Hint 2, Hint 7, Hint 0]) = WORD_LENGTH"
    "\<not> gameOver (play (exampleState 30) [Hint 0, Hint 1, Guess ''elbow'', Hint 2, Hint 7, Hint 0])"
    "5 \<le> points (play (exampleState 30) [Hint 0, Hint 1, Guess ''elbow'', Hint 2, Hint 7, Hint 0])"
    "length (revealedBy (exampleState 30) (map Hint [3, 3, 3, 3, 3])) = WORD_LENGTH"
    "5 \<le> points (play (exampleState 30) (map Hint [3, 3, 3, 3, 3]))"
    by code_simp+
  then show ?thesis
    using over last hints_never_repeat
      [of "exampleState 30" "[Hint 0, Hint 1, Guess ''elbow'', Hint 2, Hint 7, Hint 0]" 4
        "[3, 3, 3, 3, 3]"]
    by blast
qed

text \<open>
  Claim C8 as stated fails once the game is over: after five hints and the winning guess,
  with 11 points, a further \<open>buyHint\<close> is answered ``Game is over'', not ``All letters
  have been revealed as hints!''.
\<close>

theorem hints_after_win_counterexample:
  "length (revealedBy (exampleState 30)
     [Hint 0, Hint 0, Hint 0, Hint 0, Hint 0, Guess ''level'']) = WORD_LENGTH \<and>
   points (play (exampleState 30)
     [Hint 0, Hint 0, Hint 0, Hint 0, Hint 0, Guess ''level'']) = 11 \<and>
   fst (buyHint (play (exampleState 30)
     [Hint 0, Hint 0, Hint 0, Hint 0, Hint 0, Guess ''level'']) 0) = Refused GameIsOver"
  by code_simp

end
